theory Spec2Isabelle
  imports Complex_Main
begin

section \<open>Temporal-difference update rules of \<^verbatim>\<open>mushroom/algorithms/td.py\<close>\<close>

text \<open>
  The embedding follows \<^verbatim>\<open>td.py\<close> class by class. Numbers are real numbers: the
  rounding, the infinities and the NaN of the floating-point values the source computes
  with are not part of the model. Where the source divides by a value that can be zero
  or takes the square root of a value that can be negative, the model has a branch of
  its own, so that no result of the model is a HOL default value.

  The objects of the source are mutable; every method is modelled as a function that
  takes the object and returns the raised exception, if any, together with the object as
  the call leaves it.
\<close>

subsection \<open>Data\<close>

type_synonym state = "real list"
type_synonym action = "real list"

text \<open>A transition sample: \<^verbatim>\<open>sample[0]\<close> to \<^verbatim>\<open>sample[4]\<close> of the source.\<close>

record sample =
  sample_state :: state
  sample_action :: action
  sample_reward :: real
  sample_next_state :: state
  sample_absorbing :: bool

text \<open>
  The exceptions of the calls modelled here. \<open>NotANumber\<close> is not an exception of
  Python: numpy warns and carries NaN on where it divides zero by zero or takes the root
  of a negative number. The real-valued model ends such a call with this outcome.
\<close>

datatype error = AssertionError | IndexError | ValueError | NotImplementedError | NotANumber

text \<open>
  The collaborators of the update rules are not part of \<^verbatim>\<open>td.py\<close>: the approximator
  (\<^verbatim>\<open>predict\<close>, \<^verbatim>\<open>fit\<close> with the rule's \<^verbatim>\<open>fit_params\<close>, \<^verbatim>\<open>discrete_actions\<close>,
  \<^verbatim>\<open>shape\<close>) and the learning-rate schedule, a callable with a state of its own. They
  are parameters of the model: \<open>'q\<close> is the state of one approximator model, \<open>'l\<close> the
  state of one learning-rate schedule. A call of the schedule returns the step size and
  the schedule as the call leaves it.
\<close>

record ('q, 'l) collaborators =
  predict :: "'q \<Rightarrow> state \<Rightarrow> action \<Rightarrow> real"
  fit_approximator :: "'q \<Rightarrow> state \<Rightarrow> action \<Rightarrow> real \<Rightarrow> 'q"
  discrete_actions :: "action list"
  shape :: "nat list"
  learning_rate_call :: "'l \<Rightarrow> state \<Rightarrow> action \<Rightarrow> real \<times> 'l"

text \<open>
  Modelled from the spec: \<^verbatim>\<open>predict_all\<close> belongs to the approximator, which is not in
  \<^verbatim>\<open>td.py\<close>. Section 6 of the specification: the values for all discrete actions, in
  the order of \<^verbatim>\<open>discrete_actions\<close>.
\<close>

definition predict_all :: "('q, 'l) collaborators \<Rightarrow> 'q \<Rightarrow> state \<Rightarrow> real list" where
  "predict_all C q s = map (predict C q s) (discrete_actions C)"

text \<open>\<^verbatim>\<open>np.argmax\<close> of a row: the first index that holds the maximum.\<close>

fun np_argmax :: "real list \<Rightarrow> nat" where
  "np_argmax [] = 0"
| "np_argmax (x # xs) = (if list_all (\<lambda>y. y \<le> x) xs then 0 else Suc (np_argmax xs))"

text \<open>
  Modelled from the spec: \<^verbatim>\<open>max_QA\<close> is imported from \<^verbatim>\<open>mushroom.utils.dataset\<close>,
  which is not among the sources. Section 4.7 of the specification: given a state and an
  approximator, the maximum predicted value over the discrete action set and the
  maximising action, one deterministic action on ties; the rule chosen here is
  first-index-wins, the example the specification gives. Every call in \<^verbatim>\<open>td.py\<close>
  passes \<^verbatim>\<open>False\<close> as the second argument, which is left out. The maximum of an empty
  array is a \<^verbatim>\<open>ValueError\<close>.
\<close>

definition max_QA :: "('q, 'l) collaborators \<Rightarrow> state \<Rightarrow> 'q \<Rightarrow> error + real \<times> action" where
  "max_QA C next_state q =
     (let vs = predict_all C q next_state
      in if vs = [] then Inl ValueError
         else Inr (Max (set vs), discrete_actions C ! np_argmax vs))"

subsection \<open>\<^verbatim>\<open>TD\<close>, \<^verbatim>\<open>QLearning\<close> and \<^verbatim>\<open>SARSA\<close>\<close>

text \<open>
  The fields of a \<^verbatim>\<open>TD\<close> agent that \<^verbatim>\<open>td.py\<close> reads and writes. The base class
  \<^verbatim>\<open>Agent\<close> is not among the sources; its constructor is taken to store the
  approximator and the discount factor it is given.
\<close>

record ('q, 'l) TD =
  approximator :: 'q
  learning_rate :: 'l
  gamma :: real

text \<open>
  \<^verbatim>\<open>TD.fit\<close>. The bootstrap \<^verbatim>\<open>_next_q\<close> is a method of the subclass; it is the
  parameter \<open>next_q\<close>, which may raise and may change the agent (\<^verbatim>\<open>SARSA\<close> records
  the action it draws).
\<close>

definition TD_fit ::
  "('q, 'l) collaborators
   \<Rightarrow> (('q, 'l, 'z) TD_scheme \<Rightarrow> state \<Rightarrow> (error + real) \<times> ('q, 'l, 'z) TD_scheme)
   \<Rightarrow> ('q, 'l, 'z) TD_scheme \<Rightarrow> sample list \<Rightarrow> int
   \<Rightarrow> error option \<times> ('q, 'l, 'z) TD_scheme" where
  "TD_fit C next_q self dataset n_iterations =
     (if \<not> (n_iterations = 1 \<and> length dataset = 1) then (Some AssertionError, self)
      else
        let sample = dataset ! 0;
            q_current = predict C (approximator self) (sample_state sample) (sample_action sample);
            (r, self1) = (if \<not> sample_absorbing sample then next_q self (sample_next_state sample)
                          else (Inr 0, self))
        in case r of
             Inl e \<Rightarrow> (Some e, self1)
           | Inr q_next \<Rightarrow>
               let (alpha, lr) = learning_rate_call C (learning_rate self1)
                                   (sample_state sample) (sample_action sample);
                   q = q_current + alpha * (sample_reward sample + gamma self1 * q_next - q_current)
               in (None, self1\<lparr>learning_rate := lr,
                                approximator := fit_approximator C (approximator self1)
                                                  (sample_state sample) (sample_action sample) q\<rparr>))"

text \<open>\<^verbatim>\<open>QLearning._next_q\<close>: the maximum action value in the next state.\<close>

definition QLearning_next_q ::
  "('q, 'l) collaborators \<Rightarrow> ('q, 'l) TD \<Rightarrow> state \<Rightarrow> (error + real) \<times> ('q, 'l) TD" where
  "QLearning_next_q C self next_state =
     (case max_QA C next_state (approximator self) of
        Inl e \<Rightarrow> (Inl e, self)
      | Inr (max_q, _) \<Rightarrow> (Inr max_q, self))"

definition QLearning_fit ::
  "('q, 'l) collaborators \<Rightarrow> ('q, 'l) TD \<Rightarrow> sample list \<Rightarrow> int \<Rightarrow> error option \<times> ('q, 'l) TD" where
  "QLearning_fit C = TD_fit C (QLearning_next_q C)"

text \<open>
  \<^verbatim>\<open>SARSA\<close> adds the attribute \<^verbatim>\<open>_next_action\<close>, which does not exist before the
  first call of \<^verbatim>\<open>_next_q\<close>. \<^verbatim>\<open>draw_action\<close> is the policy's answer, a parameter of
  the call.
\<close>

record ('q, 'l) SARSA = "('q, 'l) TD" +
  next_action :: "action option"

definition SARSA_next_q ::
  "('q, 'l) collaborators \<Rightarrow> (state \<Rightarrow> action) \<Rightarrow> ('q, 'l) SARSA \<Rightarrow> state
   \<Rightarrow> (error + real) \<times> ('q, 'l) SARSA" where
  "SARSA_next_q C draw_action self next_state =
     (let a = draw_action next_state;
          self1 = self\<lparr>next_action := Some a\<rparr>
      in (Inr (predict C (approximator self1) next_state a), self1))"

definition SARSA_fit ::
  "('q, 'l) collaborators \<Rightarrow> (state \<Rightarrow> action) \<Rightarrow> ('q, 'l) SARSA \<Rightarrow> sample list \<Rightarrow> int
   \<Rightarrow> error option \<times> ('q, 'l) SARSA" where
  "SARSA_fit C draw_action = TD_fit C (SARSA_next_q C draw_action)"

subsection \<open>\<^verbatim>\<open>DoubleQLearning\<close>\<close>

text \<open>
  The agent is a \<^verbatim>\<open>TD\<close> agent whose approximator is the ensemble, the list of its
  models (\<^verbatim>\<open>n_models\<close> is its length), and whose \<^verbatim>\<open>learning_rate\<close> is a list of
  schedules. \<^verbatim>\<open>deepcopy\<close> gives an object of the same value that shares nothing with
  the original: in the model, the value itself.

  \<^verbatim>\<open>DoubleQLearning.__init__\<close>: the two copies are made first, then the assertion
  decides whether an object is constructed at all.
\<close>

definition DoubleQLearning_init ::
  "'q list \<Rightarrow> 'l \<Rightarrow> real \<Rightarrow> error + ('q list, 'l list) TD" where
  "DoubleQLearning_init models lr g =
     (let self = \<lparr>approximator = models, learning_rate = [lr, lr], gamma = g\<rparr>
      in if length (approximator self) = 2 then Inr self else Inl AssertionError)"

text \<open>
  \<^verbatim>\<open>DoubleQLearning._next_q\<close>. Every constructed agent has exactly two models, so the
  indices \<open>approximator_idx\<close> and \<open>1 - approximator_idx\<close> are in range.
\<close>

definition DoubleQLearning_next_q ::
  "('q, 'l) collaborators \<Rightarrow> ('q list, 'l list) TD \<Rightarrow> state \<Rightarrow> nat \<Rightarrow> error + real" where
  "DoubleQLearning_next_q C self next_state approximator_idx =
     (case max_QA C next_state (approximator self ! approximator_idx) of
        Inl e \<Rightarrow> Inl e
      | Inr (_, a_n) \<Rightarrow>
          Inr (predict C (approximator self ! (1 - approximator_idx)) next_state a_n))"

text \<open>
  \<^verbatim>\<open>DoubleQLearning.fit\<close>. The parameter \<open>uniform\<close> is the outcome of
  \<^verbatim>\<open>np.random.uniform()\<close> in this call; \<open>coin\<close> is the index the source
  computes from it, the side that is updated.
\<close>

definition coin :: "real \<Rightarrow> nat" where
  "coin uniform = (if uniform < 1 / 2 then 0 else 1)"

definition DoubleQLearning_fit ::
  "('q, 'l) collaborators \<Rightarrow> real \<Rightarrow> ('q list, 'l list) TD \<Rightarrow> sample list \<Rightarrow> int
   \<Rightarrow> error option \<times> ('q list, 'l list) TD" where
  "DoubleQLearning_fit C uniform self dataset n_iterations =
     (if \<not> (n_iterations = 1 \<and> length dataset = 1) then (Some AssertionError, self)
      else
        let sample = dataset ! 0;
            approximator_idx = coin uniform;
            q_current = predict C (approximator self ! approximator_idx)
                          (sample_state sample) (sample_action sample)
        in case (if \<not> sample_absorbing sample
                 then DoubleQLearning_next_q C self (sample_next_state sample) approximator_idx
                 else Inr 0) of
             Inl e \<Rightarrow> (Some e, self)
           | Inr q_next \<Rightarrow>
               let (alpha, lr) = learning_rate_call C (learning_rate self ! approximator_idx)
                                   (sample_state sample) (sample_action sample);
                   q = q_current + alpha * (sample_reward sample + gamma self * q_next - q_current)
               in (None, self\<lparr>learning_rate := (learning_rate self)[approximator_idx := lr],
                               approximator := (approximator self)[approximator_idx :=
                                 fit_approximator C (approximator self ! approximator_idx)
                                   (sample_state sample) (sample_action sample) q]\<rparr>))"

subsection \<open>\<^verbatim>\<open>WeightedQLearning\<close>\<close>

text \<open>
  The statistics are arrays of the shape of the approximator. An array is modelled as a
  function from cells to values; a cell is the list of its coordinates.
  \<^verbatim>\<open>_precision\<close> is the number of draws per action; the source keeps it as a float
  (\<^verbatim>\<open>1000.\<close> by default), the model as a natural number.
\<close>

type_synonym cell = "nat list"

record ('q, 'l) WeightedQLearning = "('q, 'l) TD" +
  sampling :: bool
  precision :: nat
  n_updates :: "cell \<Rightarrow> real"
  sigma :: "cell \<Rightarrow> real"
  Q :: "cell \<Rightarrow> real"
  Q2 :: "cell \<Rightarrow> real"
  weights_var :: "cell \<Rightarrow> real"

text \<open>\<^verbatim>\<open>WeightedQLearning.__init__\<close>, defaults of \<^verbatim>\<open>params.pop\<close> resolved by the caller.\<close>

definition WeightedQLearning_init ::
  "'q \<Rightarrow> 'l \<Rightarrow> real \<Rightarrow> bool \<Rightarrow> nat \<Rightarrow> ('q, 'l) WeightedQLearning" where
  "WeightedQLearning_init q lr g smp prec =
     \<lparr>approximator = q, learning_rate = lr, gamma = g,
      sampling = smp, precision = prec,
      n_updates = (\<lambda>_. 0), sigma = (\<lambda>_. 10 ^ 10), Q = (\<lambda>_. 0), Q2 = (\<lambda>_. 0),
      weights_var = (\<lambda>_. 0)\<rparr>"

text \<open>\<^verbatim>\<open>.astype(np.int)\<close> on a float: the fractional part is dropped.\<close>

definition np_astype_int :: "real \<Rightarrow> int" where
  "np_astype_int x = (if 0 \<le> x then \<lfloor>x\<rfloor> else \<lceil>x\<rceil>)"

text \<open>
  Indexing an array of shape \<open>shp\<close> with a tuple of integers: a negative coordinate
  counts from the end of its axis, a coordinate outside its axis and a tuple longer than
  the shape are an \<^verbatim>\<open>IndexError\<close>. The tables of the source have one axis for every
  component of state and action; a shorter tuple, which numpy answers with a sub-array,
  is outside that use and is reported as \<^verbatim>\<open>IndexError\<close> too.
\<close>

definition np_index :: "nat list \<Rightarrow> int list \<Rightarrow> error + cell" where
  "np_index shp idx =
     (if length idx = length shp
         \<and> list_all2 (\<lambda>d i. - int d \<le> i \<and> i < int d) shp idx
      then Inr (map2 (\<lambda>d i. nat (if i < 0 then i + int d else i)) shp idx)
      else Inl IndexError)"

text \<open>The key \<^verbatim>\<open>tuple(np.concatenate(...).astype(np.int).ravel())\<close> of a pair.\<close>

definition sa_index :: "real list \<Rightarrow> real list \<Rightarrow> int list" where
  "sa_index s a = map np_astype_int (s @ a)"

text \<open>
  The weights of \<^verbatim>\<open>_next_q\<close>: \<open>normal i a\<close> is the outcome of the draw of
  \<^verbatim>\<open>np.random.normal\<close> in row \<open>i\<close> for action \<open>a\<close>. Each of the \<open>prec\<close> rows votes for
  its \<^verbatim>\<open>argmax\<close>; the tallies are divided by the precision. With no action the
  \<^verbatim>\<open>argmax\<close> of an empty row is a \<^verbatim>\<open>ValueError\<close>; with precision zero the division
  is zero by zero.
\<close>

definition WeightedQLearning_weights ::
  "nat \<Rightarrow> (nat \<Rightarrow> nat \<Rightarrow> real) \<Rightarrow> nat \<Rightarrow> error + real list" where
  "WeightedQLearning_weights prec normal n_actions =
     (if n_actions = 0 then Inl ValueError
      else
        let samples = map (\<lambda>i. map (normal i) [0..<n_actions]) [0..<prec];
            max_idx = map np_argmax samples;
            count = map (\<lambda>a. real (count_list max_idx a)) [0..<n_actions]
        in if prec = 0 then Inl NotANumber
           else Inr (map (\<lambda>c. c / real prec) count))"

text \<open>
  \<^verbatim>\<open>WeightedQLearning._next_q\<close>. The standard deviations are read first (an
  \<^verbatim>\<open>IndexError\<close> where the next state is outside the table); they are the scale of
  the draws, whose outcomes are the parameter \<open>normal\<close>.
\<close>

definition WeightedQLearning_next_q ::
  "('q, 'l) collaborators \<Rightarrow> (nat \<Rightarrow> nat \<Rightarrow> real) \<Rightarrow> ('q, 'l) WeightedQLearning \<Rightarrow> state
   \<Rightarrow> error + real" where
  "WeightedQLearning_next_q C normal self next_state =
     (let means = predict_all C (approximator self) next_state;
          sa_n_idx = map (\<lambda>a. np_index (shape C) (sa_index next_state [real a]))
                       [0..<length (discrete_actions C)]
      in if list_ex isl sa_n_idx then Inl IndexError
         else if \<not> sampling self then Inl NotImplementedError
         else case WeightedQLearning_weights (precision self) normal (length means) of
                Inl e \<Rightarrow> Inl e
              | Inr w \<Rightarrow> Inr (sum_list (map2 (*) w means)))"

text \<open>\<^verbatim>\<open>self._sigma[self._sigma < 1e-10] = 1e-10\<close>: every entry of the array is floored.\<close>

definition floor_sigma :: "(cell \<Rightarrow> real) \<Rightarrow> cell \<Rightarrow> real" where
  "floor_sigma sg = (\<lambda>k. if sg k < 1 / 10 ^ 10 then 1 / 10 ^ 10 else sg k)"

text \<open>
  The second half of \<^verbatim>\<open>WeightedQLearning.fit\<close>, from the increment of the
  visitation count on, for the cell \<open>c\<close> that \<^verbatim>\<open>sa_idx\<close> selects. The standard
  deviation is recomputed from the second visit of a cell on, and then the whole array is
  floored. The two branches \<open>NotANumber\<close> stand where the source would divide by a
  count of zero and take the root of a negative number.
\<close>

definition WeightedQLearning_statistics ::
  "('q, 'l) WeightedQLearning \<Rightarrow> cell \<Rightarrow> real \<Rightarrow> real
   \<Rightarrow> error option \<times> ('q, 'l) WeightedQLearning" where
  "WeightedQLearning_statistics self c target alpha =
     (let n = n_updates self c + 1;
          self1 = self\<lparr>n_updates := (n_updates self)(c := n)\<rparr>
      in if n = 0 then (Some NotANumber, self1)
         else
           let Qc = Q self1 c + (target - Q self1 c) / n;
               Q2c = Q2 self1 c + (target ^ 2 - Q2 self1 c) / n;
               wc = (1 - alpha) ^ 2 * weights_var self1 c + alpha ^ 2;
               self2 = self1\<lparr>Q := (Q self1)(c := Qc),
                             Q2 := (Q2 self1)(c := Q2c),
                             weights_var := (weights_var self1)(c := wc)\<rparr>
           in if n > 1 then
                let var = n * (Q2c - Qc ^ 2) / (n - 1);
                    var_estimator = var * wc
                in if var_estimator < 0 then (Some NotANumber, self2)
                   else
                     (None, self2\<lparr>sigma :=
                        floor_sigma ((sigma self2)(c := sqrt var_estimator))\<rparr>)
              else (None, self2))"

text \<open>
  \<^verbatim>\<open>WeightedQLearning.fit\<close>. The statistics are updated after the approximator, so
  an \<^verbatim>\<open>IndexError\<close> of the key leaves the approximator and the schedule updated.
\<close>

definition WeightedQLearning_fit ::
  "('q, 'l) collaborators \<Rightarrow> (nat \<Rightarrow> nat \<Rightarrow> real) \<Rightarrow> ('q, 'l) WeightedQLearning
   \<Rightarrow> sample list \<Rightarrow> int \<Rightarrow> error option \<times> ('q, 'l) WeightedQLearning" where
  "WeightedQLearning_fit C normal self dataset n_iterations =
     (if \<not> (n_iterations = 1 \<and> length dataset = 1) then (Some AssertionError, self)
      else
        let sample = dataset ! 0;
            sa_idx = sa_index (sample_state sample) (sample_action sample);
            q_current = predict C (approximator self) (sample_state sample) (sample_action sample)
        in case (if \<not> sample_absorbing sample
                 then WeightedQLearning_next_q C normal self (sample_next_state sample)
                 else Inr 0) of
             Inl e \<Rightarrow> (Some e, self)
           | Inr q_next \<Rightarrow>
               let target = sample_reward sample + gamma self * q_next;
                   (alpha, lr) = learning_rate_call C (learning_rate self)
                                   (sample_state sample) (sample_action sample);
                   q = q_current + alpha * (target - q_current);
                   self1 = self\<lparr>learning_rate := lr,
                                approximator := fit_approximator C (approximator self)
                                                  (sample_state sample) (sample_action sample) q\<rparr>
               in (case np_index (shape C) sa_idx of
                     Inl e \<Rightarrow> (Some e, self1)
                   | Inr c \<Rightarrow> WeightedQLearning_statistics self1 c target alpha))"

text \<open>
  A sequence of \<^verbatim>\<open>fit\<close> calls on one agent, each with its draws, its dataset and its
  \<^verbatim>\<open>n_iterations\<close>. An exception leaves the agent as it was when it was raised, and
  the caller may go on. A call that ends in \<open>NotANumber\<close> ends the run: from there on the
  source computes with NaN, which no real number stands for.
\<close>

fun WeightedQLearning_run ::
  "('q, 'l) collaborators \<Rightarrow> ('q, 'l) WeightedQLearning
   \<Rightarrow> ((nat \<Rightarrow> nat \<Rightarrow> real) \<times> sample list \<times> int) list
   \<Rightarrow> ('q, 'l) WeightedQLearning option" where
  "WeightedQLearning_run C self [] = Some self"
| "WeightedQLearning_run C self ((normal, dataset, n_iterations) # calls) =
     (let (e, self1) = WeightedQLearning_fit C normal self dataset n_iterations
      in if e = Some NotANumber then None else WeightedQLearning_run C self1 calls)"

subsection \<open>\<^verbatim>\<open>SpeedyQLearning\<close>\<close>

record ('q, 'l) SpeedyQLearning = "('q, 'l) TD" +
  old_q :: 'q

text \<open>\<^verbatim>\<open>SpeedyQLearning.__init__\<close>: the shadow starts as a copy of the approximator.\<close>

definition SpeedyQLearning_init :: "'q \<Rightarrow> 'l \<Rightarrow> real \<Rightarrow> ('q, 'l) SpeedyQLearning" where
  "SpeedyQLearning_init q lr g =
     \<lparr>approximator = q, learning_rate = lr, gamma = g, old_q = q\<rparr>"

text \<open>
  \<^verbatim>\<open>SpeedyQLearning.fit\<close>. The local \<^verbatim>\<open>old_q\<close> of the source, the copy taken before
  the update, is \<open>snapshot\<close> here. The flag \<^verbatim>\<open>sample[4]\<close> is not read.
\<close>

definition SpeedyQLearning_fit ::
  "('q, 'l) collaborators \<Rightarrow> ('q, 'l) SpeedyQLearning \<Rightarrow> sample list \<Rightarrow> int
   \<Rightarrow> error option \<times> ('q, 'l) SpeedyQLearning" where
  "SpeedyQLearning_fit C self dataset n_iterations =
     (if \<not> (n_iterations = 1 \<and> length dataset = 1) then (Some AssertionError, self)
      else
        let sample = dataset ! 0;
            snapshot = approximator self
        in case max_QA C (sample_next_state sample) (approximator self) of
             Inl e \<Rightarrow> (Some e, self)
           | Inr (max_q_cur, _) \<Rightarrow>
               (case max_QA C (sample_next_state sample) (old_q self) of
                  Inl e \<Rightarrow> (Some e, self)
                | Inr (max_q_old, _) \<Rightarrow>
                    let target_cur = sample_reward sample + gamma self * max_q_cur;
                        target_old = sample_reward sample + gamma self * max_q_old;
                        (alpha, lr) = learning_rate_call C (learning_rate self)
                                        (sample_state sample) (sample_action sample);
                        q_cur = predict C (approximator self)
                                  (sample_state sample) (sample_action sample);
                        q = q_cur + alpha * (target_old - q_cur)
                              + (1 - alpha) * (target_cur - target_old)
                    in (None, self\<lparr>learning_rate := lr,
                                    approximator := fit_approximator C (approximator self)
                                      (sample_state sample) (sample_action sample) q,
                                    old_q := snapshot\<rparr>)))"

text \<open>
  A sequence of \<^verbatim>\<open>fit\<close> calls that all complete: call number \<open>k\<close> is the \<open>k\<close>-th
  element of the list. The first exception ends the run.
\<close>

fun SpeedyQLearning_run ::
  "('q, 'l) collaborators \<Rightarrow> ('q, 'l) SpeedyQLearning \<Rightarrow> (sample list \<times> int) list
   \<Rightarrow> error + ('q, 'l) SpeedyQLearning" where
  "SpeedyQLearning_run C self [] = Inr self"
| "SpeedyQLearning_run C self ((dataset, n_iterations) # calls) =
     (case SpeedyQLearning_fit C self dataset n_iterations of
        (None, self1) \<Rightarrow> SpeedyQLearning_run C self1 calls
      | (Some e, _) \<Rightarrow> Inl e)"

subsection \<open>A tabular approximator for concrete runs\<close>

text \<open>
  One state and two actions: the table is a function from pairs to values, \<^verbatim>\<open>fit\<close>
  stores the value, the schedule answers one half and counts its calls.
\<close>

definition table :: "(state \<times> action \<Rightarrow> real, nat) collaborators" where
  "table = \<lparr>predict = (\<lambda>q s a. q (s, a)),
            fit_approximator = (\<lambda>q s a v. q((s, a) := v)),
            discrete_actions = [[0], [1]],
            shape = [1, 2],
            learning_rate_call = (\<lambda>l s a. (1 / 2, Suc l))\<rparr>"

definition ones :: "state \<times> action \<Rightarrow> real" where
  "ones = (\<lambda>_. 1)"

definition step :: "bool \<Rightarrow> sample" where
  "step ab = \<lparr>sample_state = [0], sample_action = [0], sample_reward = 0,
              sample_next_state = [0], sample_absorbing = ab\<rparr>"

definition first_wins :: "nat \<Rightarrow> nat \<Rightarrow> real" where
  "first_wins i a = (if a = 0 then 1 else 0)"

definition agent :: "(state \<times> action \<Rightarrow> real, nat) TD" where
  "agent = \<lparr>approximator = ones, learning_rate = 0, gamma = 1 / 2\<rparr>"

definition sarsa_agent :: "(state \<times> action \<Rightarrow> real, nat) SARSA" where
  "sarsa_agent = \<lparr>approximator = ones, learning_rate = 0, gamma = 1 / 2, next_action = None\<rparr>"

definition double_agent :: "((state \<times> action \<Rightarrow> real) list, nat list) TD" where
  "double_agent = \<lparr>approximator = [ones, ones], learning_rate = [0, 0], gamma = 1 / 2\<rparr>"

text \<open>
  Two tables that disagree on the best action in the one state, the agent of
  \<^verbatim>\<open>DoubleQLearning\<close> that holds them, and draws in which row \<open>i\<close> votes for action
  \<open>i\<close>.
\<close>

definition low_high :: "state \<times> action \<Rightarrow> real" where
  "low_high = (\<lambda>(s, a). if a = [1] then 2 else 1)"

definition high_low :: "state \<times> action \<Rightarrow> real" where
  "high_low = (\<lambda>(s, a). if a = [1] then 3 else 5)"

definition split_votes :: "nat \<Rightarrow> nat \<Rightarrow> real" where
  "split_votes i a = (if a = i then 1 else 0)"

definition two_tables :: "((state \<times> action \<Rightarrow> real) list, nat list) TD" where
  "two_tables = \<lparr>approximator = [low_high, high_low], learning_rate = [0, 0], gamma = 1 / 2\<rparr>"

subsection \<open>The update written to the approximator\<close>

text \<open>
  The approximator after \<^verbatim>\<open>q = q_current + learning_rate(sa) * (target - q_current)\<close>
  and \<^verbatim>\<open>approximator.fit(sa, q)\<close>, for a given target. The theorems below compare
  what a \<^verbatim>\<open>fit\<close> leaves behind with this term.
\<close>

definition TD_update :: "('q, 'l) collaborators \<Rightarrow> 'q \<Rightarrow> 'l \<Rightarrow> sample \<Rightarrow> real \<Rightarrow> 'q" where
  "TD_update C q l sample target =
     (let q_current = predict C q (sample_state sample) (sample_action sample);
          alpha = fst (learning_rate_call C l (sample_state sample) (sample_action sample))
      in fit_approximator C q (sample_state sample) (sample_action sample)
           (q_current + alpha * (target - q_current)))"


subsection \<open>The invariant of the statistics\<close>

text \<open>
  What every \<^verbatim>\<open>WeightedQLearning\<close> agent satisfies between calls: counts are not
  negative, the running mean of the squares dominates the square of the running mean,
  the weight variance is not negative, the standard deviations are floored, and a cell
  that was never visited has its initial standard deviation.
\<close>

definition floored :: "real \<Rightarrow> bool" where
  "floored x \<longleftrightarrow> 1 / 10 ^ 10 \<le> x"

definition WeightedQLearning_invariant :: "('q, 'l) WeightedQLearning \<Rightarrow> bool" where
  "WeightedQLearning_invariant self \<longleftrightarrow>
     (\<forall>c. 0 \<le> n_updates self c \<and> (Q self c)\<^sup>2 \<le> Q2 self c \<and> 0 \<le> weights_var self c
          \<and> floored (sigma self c) \<and> (n_updates self c = 0 \<longrightarrow> sigma self c = 10 ^ 10))"

section \<open>Properties\<close>

subsection \<open>The maximum and its action\<close>

lemma np_argmax_less: "xs \<noteq> [] \<Longrightarrow> np_argmax xs < length xs"
proof (induction xs)
  case Nil
  then show ?case by simp
next
  case (Cons x xs)
  show ?case
  proof (cases "list_all (\<lambda>y. y \<le> x) xs")
    case True
    then show ?thesis by simp
  next
    case False
    then have "xs \<noteq> []" by auto
    with Cons.IH False show ?thesis by simp
  qed
qed

lemma np_argmax_is_max: "xs \<noteq> [] \<Longrightarrow> y \<in> set xs \<Longrightarrow> y \<le> xs ! np_argmax xs"
proof (induction xs arbitrary: y)
  case Nil
  then show ?case by simp
next
  case (Cons x xs)
  show ?case
  proof (cases "list_all (\<lambda>y. y \<le> x) xs")
    case True
    with Cons.prems show ?thesis by (auto simp: list_all_iff)
  next
    case False
    then obtain z where z: "z \<in> set xs" "\<not> z \<le> x" by (auto simp: list_all_iff)
    then have ne: "xs \<noteq> []" by auto
    have "z \<le> xs ! np_argmax xs" using Cons.IH [OF ne z(1)] .
    with z(2) have "x \<le> xs ! np_argmax xs" by linarith
    moreover have "y \<in> set xs \<Longrightarrow> y \<le> xs ! np_argmax xs" using Cons.IH [OF ne] .
    ultimately show ?thesis using Cons.prems False by auto
  qed
qed

lemma max_QA_maximises:
  assumes "max_QA C next_state q = Inr (m, a)"
  shows "a \<in> set (discrete_actions C)
     \<and> m = predict C q next_state a
     \<and> (\<forall>b\<in>set (discrete_actions C). predict C q next_state b \<le> predict C q next_state a)"
proof -
  let ?vs = "predict_all C q next_state"
  let ?i = "np_argmax ?vs"
  from assms have ne: "?vs \<noteq> []" and m: "m = Max (set ?vs)" and a: "a = discrete_actions C ! ?i"
    by (auto simp: max_QA_def Let_def split: if_splits)
  have len: "length ?vs = length (discrete_actions C)" by (simp add: predict_all_def)
  have i: "?i < length (discrete_actions C)" using np_argmax_less [OF ne] len by simp
  have at: "?vs ! ?i = predict C q next_state a" using i a by (simp add: predict_all_def)
  have ge: "\<And>y. y \<in> set ?vs \<Longrightarrow> y \<le> ?vs ! ?i" using np_argmax_is_max [OF ne] .
  have "?vs ! ?i \<in> set ?vs" using i len by (metis nth_mem)
  then have "Max (set ?vs) = ?vs ! ?i" using ge by (intro Max_eqI) auto
  moreover have "\<forall>b\<in>set (discrete_actions C). predict C q next_state b \<le> ?vs ! ?i"
    using ge by (auto simp: predict_all_def)
  ultimately show ?thesis using a i m at by auto
qed

subsection \<open>What a completed \<^verbatim>\<open>fit\<close> writes\<close>

lemma WeightedQLearning_statistics_frame:
  assumes "WeightedQLearning_statistics self c target alpha = (e, self1)"
  shows "approximator self1 = approximator self \<and> learning_rate self1 = learning_rate self
       \<and> gamma self1 = gamma self \<and> sampling self1 = sampling self
       \<and> precision self1 = precision self"
  using assms unfolding WeightedQLearning_statistics_def Let_def
  by (simp split: if_splits) auto

lemma TD_fit_written:
  assumes "\<And>s ns r s1. next_q s ns = (r, s1) \<Longrightarrow>
             approximator s1 = approximator s \<and> learning_rate s1 = learning_rate s \<and> gamma s1 = gamma s"
    and "TD_fit C next_q self [sample] 1 = (None, self1)"
  shows "\<exists>q_next. approximator self1
           = TD_update C (approximator self) (learning_rate self) sample
               (sample_reward sample + gamma self * q_next)
         \<and> (sample_absorbing sample \<longrightarrow> q_next = 0)"
proof (cases "sample_absorbing sample")
  case True
  with assms(2) show ?thesis
    by (auto simp: TD_fit_def TD_update_def Let_def split: prod.splits)
next
  case False
  obtain r s1 where n: "next_q self (sample_next_state sample) = (r, s1)"
    by (cases "next_q self (sample_next_state sample)")
  note k = assms(1) [OF n]
  from False n assms(2) k show ?thesis
    by (auto simp: TD_fit_def TD_update_def Let_def split: prod.splits sum.splits)
qed

lemma QLearning_next_q_frame: "QLearning_next_q C s ns = (r, s1) \<Longrightarrow> s1 = s"
  by (auto simp: QLearning_next_q_def split: sum.splits prod.splits)

lemma SARSA_next_q_frame:
  "SARSA_next_q C draw_action s ns = (r, s1) \<Longrightarrow>
     approximator s1 = approximator s \<and> learning_rate s1 = learning_rate s \<and> gamma s1 = gamma s"
  by (auto simp: SARSA_next_q_def Let_def)

lemma QLearning_fit_written:
  assumes "QLearning_fit C self [sample] 1 = (None, self1)"
  shows "\<exists>q_next. approximator self1
           = TD_update C (approximator self) (learning_rate self) sample
               (sample_reward sample + gamma self * q_next)
         \<and> (sample_absorbing sample \<longrightarrow> q_next = 0)"
  using assms unfolding QLearning_fit_def
  by (rule TD_fit_written [rotated]) (auto dest: QLearning_next_q_frame)

lemma SARSA_fit_written:
  assumes "SARSA_fit C draw_action self [sample] 1 = (None, self1)"
  shows "\<exists>q_next. approximator self1
           = TD_update C (approximator self) (learning_rate self) sample
               (sample_reward sample + gamma self * q_next)
         \<and> (sample_absorbing sample \<longrightarrow> q_next = 0)"
  using assms unfolding SARSA_fit_def
  by (rule TD_fit_written [rotated]) (auto dest: SARSA_next_q_frame)

lemma DoubleQLearning_fit_written:
  assumes "length (approximator self) = 2"
    and "DoubleQLearning_fit C uniform self [sample] 1 = (None, self1)"
  shows "\<exists>q_next. approximator self1 ! coin uniform
           = TD_update C (approximator self ! coin uniform) (learning_rate self ! coin uniform)
               sample (sample_reward sample + gamma self * q_next)
         \<and> (sample_absorbing sample \<longrightarrow> q_next = 0)"
proof -
  have i: "coin uniform < length (approximator self)" using assms(1) by (simp add: coin_def)
  from assms(2) i show ?thesis
    unfolding DoubleQLearning_fit_def TD_update_def Let_def
    by (auto split: sum.splits prod.splits if_splits)
qed

lemma WeightedQLearning_fit_single:
  "WeightedQLearning_fit C normal self [sample] 1 =
     (case (if sample_absorbing sample then Inr 0
            else WeightedQLearning_next_q C normal self (sample_next_state sample)) of
        Inl e \<Rightarrow> (Some e, self)
      | Inr q_next \<Rightarrow>
          (let target = sample_reward sample + gamma self * q_next;
               alpha = fst (learning_rate_call C (learning_rate self)
                              (sample_state sample) (sample_action sample));
               self1 = self\<lparr>learning_rate :=
                              snd (learning_rate_call C (learning_rate self)
                                     (sample_state sample) (sample_action sample)),
                            approximator :=
                              TD_update C (approximator self) (learning_rate self) sample target\<rparr>
           in case np_index (shape C) (sa_index (sample_state sample) (sample_action sample)) of
                Inl e \<Rightarrow> (Some e, self1)
              | Inr c \<Rightarrow> WeightedQLearning_statistics self1 c target alpha))"
  by (simp add: WeightedQLearning_fit_def TD_update_def Let_def split: prod.splits sum.splits)

lemma WeightedQLearning_fit_written:
  assumes "WeightedQLearning_fit C normal self [sample] 1 = (None, self1)"
  shows "\<exists>q_next. approximator self1
           = TD_update C (approximator self) (learning_rate self) sample
               (sample_reward sample + gamma self * q_next)
         \<and> (sample_absorbing sample \<longrightarrow> q_next = 0)"
proof (cases "sample_absorbing sample")
  case True
  with assms show ?thesis
    unfolding WeightedQLearning_fit_single Let_def
    by (auto split: sum.splits dest!: WeightedQLearning_statistics_frame)
next
  case False
  with assms show ?thesis
    unfolding WeightedQLearning_fit_single Let_def
    by (auto split: sum.splits dest!: WeightedQLearning_statistics_frame)
qed


subsection \<open>Runs of \<^verbatim>\<open>SpeedyQLearning\<close>\<close>

lemma SpeedyQLearning_run_append:
  "SpeedyQLearning_run C self (xs @ ys) =
     (case SpeedyQLearning_run C self xs of
        Inl e \<Rightarrow> Inl e
      | Inr self1 \<Rightarrow> SpeedyQLearning_run C self1 ys)"
  by (induction xs arbitrary: self) (auto split: prod.splits option.splits sum.splits)

lemma SpeedyQLearning_fit_shadow:
  "SpeedyQLearning_fit C self dataset n_iterations = (None, self1) \<Longrightarrow>
     old_q self1 = approximator self"
  unfolding SpeedyQLearning_fit_def Let_def
  by (auto split: sum.splits prod.splits if_splits)

lemma SpeedyQLearning_run_prefix:
  assumes "SpeedyQLearning_run C self calls = Inr self1"
  shows "\<exists>s. SpeedyQLearning_run C self (take j calls) = Inr s"
proof -
  have "SpeedyQLearning_run C self (take j calls @ drop j calls) = Inr self1"
    using assms by simp
  then show ?thesis
    unfolding SpeedyQLearning_run_append by (auto split: sum.splits)
qed

subsection \<open>The statistics of \<^verbatim>\<open>WeightedQLearning\<close>\<close>

lemma floored_floor_sigma: "floored (floor_sigma sg k)"
  by (simp add: floor_sigma_def floored_def)

lemma floor_sigma_id: "floored (sg k) \<Longrightarrow> floor_sigma sg k = sg k"
  by (simp add: floor_sigma_def floored_def)

lemma running_moments:
  fixes n q q2 t :: real
  assumes "1 \<le> n" and "q\<^sup>2 \<le> q2"
  shows "(q + (t - q) / n)\<^sup>2 \<le> q2 + (t\<^sup>2 - q2) / n"
proof -
  define l where "l = 1 / n"
  have l: "0 < l" "l \<le> 1" using assms(1) by (simp_all add: l_def)
  have a: "q + (t - q) / n = (1 - l) * q + l * t"
    by (simp add: l_def algebra_simps diff_divide_distrib)
  have b: "q2 + (t\<^sup>2 - q2) / n = (1 - l) * q2 + l * t\<^sup>2"
    by (simp add: l_def algebra_simps diff_divide_distrib)
  have c: "(1 - l) * q\<^sup>2 + l * t\<^sup>2 - ((1 - l) * q + l * t)\<^sup>2 = l * (1 - l) * (q - t)\<^sup>2"
    by (simp add: power2_eq_square algebra_simps)
  have "0 \<le> l * (1 - l) * (q - t)\<^sup>2" using l by simp
  then have "((1 - l) * q + l * t)\<^sup>2 \<le> (1 - l) * q\<^sup>2 + l * t\<^sup>2" using c by linarith
  also have "\<dots> \<le> (1 - l) * q2 + l * t\<^sup>2"
    using assms(2) l by (simp add: mult_left_mono)
  finally show ?thesis by (simp add: a b)
qed

lemma WeightedQLearning_statistics_invariant:
  assumes inv: "WeightedQLearning_invariant self"
    and st: "WeightedQLearning_statistics self c target alpha = (e, self1)"
  shows "e = None \<and> WeightedQLearning_invariant self1"
proof -
  define n where "n = n_updates self c + 1"
  define Qc where "Qc = Q self c + (target - Q self c) / n"
  define Q2c where "Q2c = Q2 self c + (target\<^sup>2 - Q2 self c) / n"
  define wc where "wc = (1 - alpha)\<^sup>2 * weights_var self c + alpha\<^sup>2"
  define ve where "ve = n * (Q2c - Qc\<^sup>2) / (n - 1) * wc"
  from inv have i: "0 \<le> n_updates self c" "(Q self c)\<^sup>2 \<le> Q2 self c" "0 \<le> weights_var self c"
    by (simp_all add: WeightedQLearning_invariant_def)
  have n1: "1 \<le> n" using i(1) by (simp add: n_def)
  have m: "Qc\<^sup>2 \<le> Q2c" unfolding Qc_def Q2c_def using running_moments [OF n1 i(2)] .
  have w: "0 \<le> wc" unfolding wc_def using i(3) by simp
  have ve: "1 < n \<Longrightarrow> 0 \<le> ve"
    unfolding ve_def using m w n1 by (simp add: divide_nonneg_pos)
  show ?thesis
  proof (cases "1 < n")
    case False
    with n1 have n: "n = 1" by simp
    from st n have e: "e = None"
      and s: "self1 = self\<lparr>n_updates := (n_updates self)(c := n),
                Q := (Q self)(c := Qc), Q2 := (Q2 self)(c := Q2c),
                weights_var := (weights_var self)(c := wc)\<rparr>"
      unfolding WeightedQLearning_statistics_def Let_def n_def [symmetric]
      by (simp_all add: Qc_def Q2c_def wc_def n_def [symmetric])
    from inv m w n have "WeightedQLearning_invariant self1"
      unfolding s WeightedQLearning_invariant_def by simp
    with e show ?thesis by simp
  next
    case True
    from st True ve [OF True] n1 have e: "e = None"
      and s: "self1 = self\<lparr>n_updates := (n_updates self)(c := n),
                Q := (Q self)(c := Qc), Q2 := (Q2 self)(c := Q2c),
                weights_var := (weights_var self)(c := wc),
                sigma := floor_sigma ((sigma self)(c := sqrt ve))\<rparr>"
      unfolding WeightedQLearning_statistics_def Let_def n_def [symmetric]
      by (simp_all add: Qc_def Q2c_def wc_def ve_def n_def [symmetric])
    from inv m w True have "WeightedQLearning_invariant self1"
      unfolding s WeightedQLearning_invariant_def
      by (auto simp: floored_floor_sigma floor_sigma_id)
    with e show ?thesis by simp
  qed
qed


lemma WeightedQLearning_invariant_init:
  "WeightedQLearning_invariant (WeightedQLearning_init q lr g smp prec)"
  by (simp add: WeightedQLearning_invariant_def WeightedQLearning_init_def floored_def)

lemma WeightedQLearning_invariant_frame:
  "WeightedQLearning_invariant (self\<lparr>learning_rate := l, approximator := a\<rparr>)
     = WeightedQLearning_invariant self"
  by (simp add: WeightedQLearning_invariant_def)

lemma WeightedQLearning_next_q_number:
  "0 < precision self \<Longrightarrow> WeightedQLearning_next_q C normal self next_state \<noteq> Inl NotANumber"
  by (auto simp: WeightedQLearning_next_q_def WeightedQLearning_weights_def Let_def
      split: sum.splits if_splits)

lemma np_index_error: "np_index shp idx = Inl x \<Longrightarrow> x = IndexError"
  by (simp add: np_index_def split: if_splits)

lemma singleton_dataset: "length dataset = 1 \<Longrightarrow> dataset = [dataset ! 0]"
  by (cases dataset) auto

text \<open>The outcomes of a call, one by one.\<close>

lemma WeightedQLearning_fit_cases:
  assumes "WeightedQLearning_fit C normal self dataset n_iterations = (e, self1)"
  shows "(e \<noteq> None \<and> self1 = self
            \<and> (e = Some NotANumber \<longrightarrow>
                  WeightedQLearning_next_q C normal self (sample_next_state (dataset ! 0))
                    = Inl NotANumber))
       \<or> (e = Some IndexError
            \<and> (\<exists>l a. self1 = self\<lparr>learning_rate := l, approximator := a\<rparr>))
       \<or> (\<exists>l a c target alpha.
             np_index (shape C)
               (sa_index (sample_state (dataset ! 0)) (sample_action (dataset ! 0))) = Inr c
           \<and> WeightedQLearning_statistics (self\<lparr>learning_rate := l, approximator := a\<rparr>)
                c target alpha = (e, self1))"
proof (cases "n_iterations = 1 \<and> length dataset = 1")
  case False
  with assms show ?thesis by (auto simp: WeightedQLearning_fit_def)
next
  case True
  then have d: "dataset = [dataset ! 0]" and n: "n_iterations = 1"
    using singleton_dataset by auto
  define sample where "sample = dataset ! 0"
  from assms d n have f: "WeightedQLearning_fit C normal self [sample] 1 = (e, self1)"
    by (simp add: sample_def)
  show ?thesis
    using f unfolding WeightedQLearning_fit_single Let_def sample_def [symmetric]
    by (auto split: sum.splits if_splits dest: np_index_error)
qed

lemma WeightedQLearning_fit_invariant:
  assumes "WeightedQLearning_invariant self"
    and "WeightedQLearning_fit C normal self dataset n_iterations = (e, self1)"
  shows "WeightedQLearning_invariant self1 \<and> precision self1 = precision self
       \<and> (0 < precision self \<longrightarrow> e \<noteq> Some NotANumber)"
  using WeightedQLearning_fit_cases [OF assms(2)]
proof (elim disjE conjE exE)
  assume "e \<noteq> None" "self1 = self"
    "e = Some NotANumber \<longrightarrow>
       WeightedQLearning_next_q C normal self (sample_next_state (dataset ! 0)) = Inl NotANumber"
  with assms(1) WeightedQLearning_next_q_number [of self C normal "sample_next_state (dataset ! 0)"]
  show ?thesis by auto
next
  fix l a
  assume "e = Some IndexError" "self1 = self\<lparr>learning_rate := l, approximator := a\<rparr>"
  with assms(1) show ?thesis by (simp add: WeightedQLearning_invariant_frame)
next
  fix l a c target alpha
  assume s: "WeightedQLearning_statistics (self\<lparr>learning_rate := l, approximator := a\<rparr>)
                c target alpha = (e, self1)"
  have i: "WeightedQLearning_invariant (self\<lparr>learning_rate := l, approximator := a\<rparr>)"
    using assms(1) by (simp add: WeightedQLearning_invariant_frame)
  from WeightedQLearning_statistics_invariant [OF i s] WeightedQLearning_statistics_frame [OF s]
  show ?thesis by simp
qed

lemma WeightedQLearning_run_invariant:
  assumes "WeightedQLearning_invariant self"
  shows "(WeightedQLearning_run C self calls = Some self1 \<longrightarrow> WeightedQLearning_invariant self1)
       \<and> (0 < precision self \<longrightarrow> WeightedQLearning_run C self calls \<noteq> None)"
  using assms
proof (induction calls arbitrary: self)
  case Nil
  then show ?case by auto
next
  case (Cons call calls)
  obtain normal dataset n_iterations where c: "call = (normal, dataset, n_iterations)"
    by (cases call) auto
  obtain e s where f: "WeightedQLearning_fit C normal self dataset n_iterations = (e, s)"
    by (cases "WeightedQLearning_fit C normal self dataset n_iterations")
  note k = WeightedQLearning_fit_invariant [OF Cons.prems f]
  from Cons.IH [of s] k show ?case
    by (auto simp: c f)
qed


lemma WeightedQLearning_statistics_first_visit:
  assumes "WeightedQLearning_statistics self c target alpha = (e, self1)"
    and "n_updates self c = 0"
  shows "e = None \<and> sigma self1 = sigma self \<and> n_updates self1 c = 1"
  using assms unfolding WeightedQLearning_statistics_def Let_def
  by auto

lemma WeightedQLearning_statistics_count:
  assumes "WeightedQLearning_statistics self c target alpha = (e, self1)"
  shows "n_updates self1 = (n_updates self)(c := n_updates self c + 1)"
  using assms unfolding WeightedQLearning_statistics_def Let_def
  by (auto split: if_splits)

subsection \<open>The weights of \<^verbatim>\<open>WeightedQLearning\<close>\<close>

lemma tallies_sum:
  assumes "\<forall>i\<in>set xs. i < n"
  shows "(\<Sum>a\<leftarrow>[0..<n]. real (count_list xs a)) = real (length xs)"
proof -
  have "(\<Sum>a\<leftarrow>[0..<n]. real (count_list xs a)) = real (\<Sum>a\<leftarrow>[0..<n]. count_list xs a)"
    by (induction n) simp_all
  also have "(\<Sum>a\<leftarrow>[0..<n]. count_list xs a) = sum (count_list xs) {0..<n}"
    by (simp add: interv_sum_list_conv_sum_set_nat)
  also have "\<dots> = length xs"
    using assms by (intro sum_count_set) auto
  finally show ?thesis .
qed

lemma sum_list_divide:
  fixes xs :: "real list"
  shows "sum_list (map (\<lambda>c. c / k) xs) = sum_list xs / k"
  by (induction xs) (simp_all add: add_divide_distrib)

lemma WeightedQLearning_weights_normalised:
  assumes "0 < prec" and "0 < n_actions"
  shows "\<exists>w. WeightedQLearning_weights prec normal n_actions = Inr w
           \<and> length w = n_actions \<and> list_all (\<lambda>x. 0 \<le> x) w \<and> sum_list w = 1"
proof -
  define samples where "samples = map (\<lambda>i. map (normal i) [0..<n_actions]) [0..<prec]"
  define max_idx where "max_idx = map np_argmax samples"
  define w where "w = map (\<lambda>c. c / real prec) (map (\<lambda>a. real (count_list max_idx a)) [0..<n_actions])"
  have eq: "WeightedQLearning_weights prec normal n_actions = Inr w"
    using assms by (simp add: WeightedQLearning_weights_def Let_def w_def max_idx_def samples_def)
  have "\<forall>row\<in>set samples. np_argmax row < n_actions"
  proof
    fix row assume "row \<in> set samples"
    then have "length row = n_actions" by (auto simp: samples_def)
    with assms(2) np_argmax_less [of row] show "np_argmax row < n_actions" by auto
  qed
  then have "\<forall>i\<in>set max_idx. i < n_actions" by (simp add: max_idx_def)
  from tallies_sum [OF this] have t: "(\<Sum>a\<leftarrow>[0..<n_actions]. real (count_list max_idx a)) = real prec"
    by (simp add: max_idx_def samples_def)
  have "sum_list w = (\<Sum>a\<leftarrow>[0..<n_actions]. real (count_list max_idx a)) / real prec"
    unfolding w_def by (rule sum_list_divide)
  with t assms(1) have s: "sum_list w = 1" by simp
  have "length w = n_actions" by (simp add: w_def)
  moreover have "list_all (\<lambda>x. 0 \<le> x) w" by (simp add: w_def list_all_iff)
  ultimately show ?thesis using eq s by blast
qed

lemma weighted_mean_le:
  fixes w m :: "real list"
  assumes "length w = length m" and "list_all (\<lambda>x. 0 \<le> x) w" and "\<forall>y\<in>set m. y \<le> u"
  shows "sum_list (map2 (*) w m) \<le> sum_list w * u"
  using assms
proof (induction w m rule: list_induct2)
  case Nil
  then show ?case by simp
next
  case (Cons x xs y ys)
  then have "x * y \<le> x * u" by (simp add: mult_left_mono)
  moreover have "sum_list (map2 (*) xs ys) \<le> sum_list xs * u" using Cons by simp
  ultimately show ?case by (simp add: algebra_simps)
qed

lemma weighted_mean_ge:
  fixes w m :: "real list"
  assumes "length w = length m" and "list_all (\<lambda>x. 0 \<le> x) w" and "\<forall>y\<in>set m. l \<le> y"
  shows "sum_list w * l \<le> sum_list (map2 (*) w m)"
  using assms
proof (induction w m rule: list_induct2)
  case Nil
  then show ?case by simp
next
  case (Cons x xs y ys)
  then have "x * l \<le> x * y" by (simp add: mult_left_mono)
  moreover have "sum_list xs * l \<le> sum_list (map2 (*) xs ys)" using Cons by simp
  ultimately show ?case by (simp add: algebra_simps)
qed

subsection \<open>Concrete calls on the table\<close>

lemma table_simps:
  "predict table q s a = q (s, a)"
  "fit_approximator table q s a v = q((s, a) := v)"
  "discrete_actions table = [[0], [1]]"
  "shape table = [1, 2]"
  "learning_rate_call table l s a = (1 / 2, Suc l)"
  by (simp_all add: table_def)

lemma step_simps:
  "sample_state (step ab) = [0]" "sample_action (step ab) = [0]" "sample_reward (step ab) = 0"
  "sample_next_state (step ab) = [0]" "sample_absorbing (step ab) = ab"
  by (simp_all add: step_def)

lemma upt2: "[0..<2] = [0, 1]"
  by (simp add: upt_rec)


lemma table_keys:
  "np_index (shape table) (sa_index [0] [0]) = Inr [0, 0]"
  "np_index (shape table) (sa_index [0] [1]) = Inr [0, 1]"
  by (simp_all add: np_index_def sa_index_def np_astype_int_def table_simps)


lemma completed: "fst p = None \<Longrightarrow> p = (None, snd p)"
  by (cases p) simp


lemma SARSA_fit_table:
  "SARSA_fit table (\<lambda>_. [1]) (sarsa_agent\<lparr>gamma := g\<rparr>) [step False] 1
     = (None, \<lparr>approximator = ones(([0], [0]) := 1 + 1 / 2 * (g - 1)), learning_rate = 1,
               gamma = g, next_action = Some [1]\<rparr>)"
  by (simp add: SARSA_fit_def TD_fit_def SARSA_next_q_def
      sarsa_agent_def table_simps step_simps ones_def Let_def)

lemma DoubleQLearning_fit_table:
  "DoubleQLearning_fit table 0 (double_agent\<lparr>gamma := g\<rparr>) [step False] 1
     = (None, \<lparr>approximator = [ones(([0], [0]) := 1 + 1 / 2 * (g - 1)), ones],
               learning_rate = [1, 0], gamma = g\<rparr>)"
  by (simp add: DoubleQLearning_fit_def DoubleQLearning_next_q_def coin_def max_QA_def
      predict_all_def double_agent_def table_simps step_simps ones_def Let_def)


lemma SpeedyQLearning_fit_table:
  "SpeedyQLearning_fit table (SpeedyQLearning_init ones 0 g) [step ab] 1
     = (None, \<lparr>approximator = ones(([0], [0]) := 1 + 1 / 2 * (g - 1)), learning_rate = 1,
               gamma = g, old_q = ones\<rparr>)"
  by (simp add: SpeedyQLearning_fit_def SpeedyQLearning_init_def max_QA_def predict_all_def
      table_simps step_simps ones_def Let_def)

lemma SpeedyQLearning_run_table:
  "SpeedyQLearning_run table (SpeedyQLearning_init ones 0 (1 / 2))
     [([step False], 1), ([step False], 1)]
     = Inr \<lparr>approximator = ones(([0], [0]) := 5 / 8), learning_rate = 2, gamma = 1 / 2,
             old_q = ones(([0], [0]) := 3 / 4)\<rparr>"
  by (simp add: SpeedyQLearning_fit_table)
    (simp add: SpeedyQLearning_fit_def max_QA_def predict_all_def table_simps step_simps
      ones_def Let_def)

lemma WeightedQLearning_fit_first:
  "WeightedQLearning_fit table first_wins (WeightedQLearning_init ones 0 (1 / 2) True 2)
          [step True] 1
     = (None, (WeightedQLearning_init ones 0 (1 / 2) True 2)
          \<lparr>learning_rate := 1, approximator := ones(([0], [0]) := 1 / 2),
            n_updates := (\<lambda>_. 0)([0, 0] := 1), Q := (\<lambda>_. 0)([0, 0] := 0),
            Q2 := (\<lambda>_. 0)([0, 0] := 0), weights_var := (\<lambda>_. 0)([0, 0] := 1 / 4)\<rparr>)"
  unfolding WeightedQLearning_fit_single
  by (simp add: step_simps table_keys table_simps(1,2,5) TD_update_def
      WeightedQLearning_statistics_def Let_def WeightedQLearning_init_def ones_def
      power2_eq_square)



lemma DoubleQLearning_fit_decoupled:
  "DoubleQLearning_fit table 0 two_tables [step False] 1
     = (None, \<lparr>approximator = [low_high(([0], [0]) := 5 / 4), high_low],
               learning_rate = [1, 0], gamma = 1 / 2\<rparr>)"
  by (simp add: DoubleQLearning_fit_def DoubleQLearning_next_q_def coin_def max_QA_def
      predict_all_def table_simps step_simps two_tables_def low_high_def high_low_def Let_def)

lemma DoubleQLearning_next_q_decoupled:
  "DoubleQLearning_next_q table two_tables [0] 0
     = Inr 3"
  by (simp add: DoubleQLearning_next_q_def max_QA_def
      predict_all_def table_simps two_tables_def low_high_def high_low_def Let_def)

lemma weights_split_votes:
  "WeightedQLearning_weights 2 split_votes (length (discrete_actions table)) = Inr [1 / 2, 1 / 2]"
  by (simp add: WeightedQLearning_weights_def split_votes_def table_simps upt2 Let_def
      flip: numeral_2_eq_2)

lemma next_q_split_votes:
  "WeightedQLearning_next_q table split_votes (WeightedQLearning_init low_high 0 g True 2) [0]
     = Inr (3 / 2)"
proof -
  have m: "predict_all table low_high [0] = [1, 2]"
    by (simp add: predict_all_def table_simps low_high_def)
  have l: "length (predict_all table low_high [0]) = length (discrete_actions table)"
    by (simp add: predict_all_def)
  have k: "map (\<lambda>a. np_index (shape table) (sa_index [0] [real a]))
             [0..<length (discrete_actions table)] = [Inr [0, 0], Inr [0, 1]]"
    using table_keys by (simp add: table_simps(3) upt2 flip: numeral_2_eq_2)
  show ?thesis
    unfolding WeightedQLearning_next_q_def Let_def k
    by (simp add: WeightedQLearning_init_def l weights_split_votes) (simp add: m)
qed

section \<open>The claims\<close>

text \<open>
  C1. On a sample whose absorbing flag is set, every variant is to bootstrap with 0, so
  that the target is the reward. \<^verbatim>\<open>TD.fit\<close>, \<^verbatim>\<open>DoubleQLearning.fit\<close> and
  \<^verbatim>\<open>WeightedQLearning.fit\<close> do, each with \<^verbatim>\<open>if not sample[4] else 0.\<close>;
  \<^verbatim>\<open>SpeedyQLearning.fit\<close> does not, it never reads the flag. On the table of ones with
  discount one half and reward 0, the call on an absorbing sample completes and writes
  3/4, the value for the targets \<open>0 + 1/2 * 1\<close>, where the target 0 gives 1/2.
\<close>

theorem SpeedyQLearning_fit_absorbing:
  "fst (SpeedyQLearning_fit table (SpeedyQLearning_init ones 0 (1 / 2)) [step True] 1) = None
   \<and> predict table
        (approximator (snd (SpeedyQLearning_fit table (SpeedyQLearning_init ones 0 (1 / 2))
           [step True] 1))) [0] [0] = 3 / 4
   \<and> predict table
        (TD_update table ones 0 (step True) (sample_reward (step True))) [0] [0] = 1 / 2"
  by (simp add: SpeedyQLearning_fit_table)
    (simp add: TD_update_def table_simps step_simps ones_def)

text \<open>
  C2. In a run of completed \<^verbatim>\<open>SpeedyQLearning.fit\<close> calls on a new agent, at the start
  of call \<open>k\<close> the shadow \<^verbatim>\<open>old_q\<close> is the approximator as it was after call \<open>k - 2\<close>,
  and the initial approximator for \<open>k \<le> 2\<close>; and at the end of every completed call the
  shadow is the approximator as it was before that call's update.
\<close>

theorem SpeedyQLearning_shadow_lags:
  assumes "SpeedyQLearning_run C (SpeedyQLearning_init q lr g) calls = Inr self"
    and "1 \<le> k" and "k \<le> length calls + 1"
  shows "\<exists>s1 s2.
           SpeedyQLearning_run C (SpeedyQLearning_init q lr g) (take (k - 1) calls) = Inr s1
         \<and> SpeedyQLearning_run C (SpeedyQLearning_init q lr g) (take (k - 2) calls) = Inr s2
         \<and> old_q s1 = approximator s2
         \<and> (k \<le> 2 \<longrightarrow> old_q s1 = q)
         \<and> (\<forall>dataset n_iterations s3.
               SpeedyQLearning_fit C s1 dataset n_iterations = (None, s3)
                 \<longrightarrow> old_q s3 = approximator s1)"
proof -
  let ?init = "SpeedyQLearning_init q lr g"
  obtain s1 where s1: "SpeedyQLearning_run C ?init (take (k - 1) calls) = Inr s1"
    using SpeedyQLearning_run_prefix [OF assms(1)] by blast
  obtain s2 where s2: "SpeedyQLearning_run C ?init (take (k - 2) calls) = Inr s2"
    using SpeedyQLearning_run_prefix [OF assms(1)] by blast
  have lag: "old_q s1 = approximator s2"
  proof (cases "k = 1")
    case True
    with s1 s2 show ?thesis by (auto simp: SpeedyQLearning_init_def)
  next
    case False
    with assms(2,3) have k: "k - 2 < length calls" "k - 1 = Suc (k - 2)" by auto
    have "take (k - 1) calls = take (k - 2) calls @ [calls ! (k - 2)]"
      using k by (simp add: take_Suc_conv_app_nth)
    with s1 s2 have "SpeedyQLearning_run C s2 [calls ! (k - 2)] = Inr s1"
      by (simp add: SpeedyQLearning_run_append)
    then show ?thesis
      by (cases "calls ! (k - 2)")
        (auto split: prod.splits option.splits dest: SpeedyQLearning_fit_shadow)
  qed
  have first: "k \<le> 2 \<longrightarrow> old_q s1 = q"
    using lag s2 by (auto simp: SpeedyQLearning_init_def)
  show ?thesis
    using s1 s2 lag first by (auto dest: SpeedyQLearning_fit_shadow)
qed

theorem SpeedyQLearning_shadow_lags_witness:
  "SpeedyQLearning_run table (SpeedyQLearning_init ones 0 (1 / 2))
     [([step False], 1), ([step False], 1)]
     = Inr \<lparr>approximator = ones(([0], [0]) := 5 / 8), learning_rate = 2, gamma = 1 / 2,
             old_q = ones(([0], [0]) := 3 / 4)\<rparr>
   \<and> (1 :: nat) \<le> 3 \<and> (3 :: nat) \<le> length [([step False], 1 :: int), ([step False], 1)] + 1
   \<and> (\<exists>s1 s2.
         SpeedyQLearning_run table (SpeedyQLearning_init ones 0 (1 / 2))
           (take (3 - 1) [([step False], 1), ([step False], 1)]) = Inr s1
       \<and> SpeedyQLearning_run table (SpeedyQLearning_init ones 0 (1 / 2))
           (take (3 - 2) [([step False], 1), ([step False], 1)]) = Inr s2
       \<and> old_q s1 = approximator s2)"
proof -
  have k: "(1 :: nat) \<le> 3" "(3 :: nat) \<le> length [([step False], 1 :: int), ([step False], 1)] + 1"
    by simp_all
  from SpeedyQLearning_shadow_lags [OF SpeedyQLearning_run_table k] SpeedyQLearning_run_table k
  show ?thesis by blast
qed

text \<open>
  C3. In a completed \<^verbatim>\<open>DoubleQLearning.fit\<close> on a sample that is not absorbing, the
  bootstrap value in the target is the prediction of the other approximator, the one the
  coin did not choose, in the next state, at an action that maximises the prediction of
  the chosen approximator in the next state.
\<close>

theorem DoubleQLearning_bootstrap:
  assumes "\<not> sample_absorbing sample"
    and "length (approximator self) = 2"
    and "DoubleQLearning_fit C uniform self [sample] 1 = (None, self1)"
  shows "\<exists>a_n\<in>set (discrete_actions C).
      (\<forall>b\<in>set (discrete_actions C).
          predict C (approximator self ! coin uniform) (sample_next_state sample) b
            \<le> predict C (approximator self ! coin uniform) (sample_next_state sample) a_n)
      \<and> DoubleQLearning_next_q C self (sample_next_state sample) (coin uniform)
           = Inr (predict C (approximator self ! (1 - coin uniform)) (sample_next_state sample) a_n)
      \<and> approximator self1 ! coin uniform
           = TD_update C (approximator self ! coin uniform) (learning_rate self ! coin uniform)
               sample
               (sample_reward sample
                  + gamma self * predict C (approximator self ! (1 - coin uniform))
                                   (sample_next_state sample) a_n)"
proof -
  have i: "coin uniform < length (approximator self)" using assms(2) by (simp add: coin_def)
  from assms(1,3) obtain v where
    nq: "DoubleQLearning_next_q C self (sample_next_state sample) (coin uniform) = Inr v"
    by (auto simp: DoubleQLearning_fit_def Let_def split: sum.splits prod.splits)
  then obtain m a_n where
    mq: "max_QA C (sample_next_state sample) (approximator self ! coin uniform) = Inr (m, a_n)"
    and v: "v = predict C (approximator self ! (1 - coin uniform)) (sample_next_state sample) a_n"
    by (auto simp: DoubleQLearning_next_q_def split: sum.splits prod.splits)
  note mx = max_QA_maximises [OF mq]
  have upd: "approximator self1 ! coin uniform
      = TD_update C (approximator self ! coin uniform) (learning_rate self ! coin uniform) sample
          (sample_reward sample + gamma self * v)"
    using assms(1,3) nq i
    by (auto simp: DoubleQLearning_fit_def TD_update_def Let_def split: prod.splits)
  show ?thesis
    using mx nq v upd by (intro bexI [of _ a_n]) auto
qed

theorem DoubleQLearning_bootstrap_witness:
  "\<not> sample_absorbing (step False)
   \<and> length (approximator two_tables) = 2
   \<and> DoubleQLearning_fit table 0 two_tables [step False] 1
       = (None, \<lparr>approximator = [low_high(([0], [0]) := 5 / 4), high_low],
                 learning_rate = [1, 0], gamma = 1 / 2\<rparr>)
   \<and> Max (set (predict_all table low_high [0])) = 2
   \<and> Max (set (predict_all table high_low [0])) = 5
   \<and> DoubleQLearning_next_q table two_tables [0] (coin 0) = Inr 3
   \<and> (\<exists>a_n\<in>set (discrete_actions table).
        predict table (approximator two_tables ! (1 - coin 0)) [0] a_n = 3
        \<and> low_high(([0], [0]) := 5 / 4)
          = TD_update table low_high 0 (step False) (0 + 1 / 2 * 3))"
proof -
  have a: "\<not> sample_absorbing (step False)" by (simp add: step_simps)
  have l: "length (approximator two_tables) = 2" by (simp add: two_tables_def)
  note f = DoubleQLearning_fit_decoupled
  have n: "DoubleQLearning_next_q table two_tables [0] (coin 0) = Inr 3"
    using DoubleQLearning_next_q_decoupled by (simp add: coin_def)
  have m: "Max (set (predict_all table low_high [0])) = 2"
    "Max (set (predict_all table high_low [0])) = 5"
    by (simp_all add: predict_all_def table_simps low_high_def high_low_def)
  from DoubleQLearning_bootstrap [OF a l f] a l f n m show ?thesis
    by (simp add: step_simps coin_def two_tables_def) auto
qed

text \<open>
  C4. Every \<^verbatim>\<open>DoubleQLearning.fit\<close> leaves the approximator and the learning-rate
  schedule of the side the coin did not choose as they were. A call that completes has
  fitted the chosen approximator and has called the chosen schedule; a call that raises
  changes nothing.
\<close>

theorem DoubleQLearning_fit_frame:
  assumes "length (approximator self) = 2" and "length (learning_rate self) = 2"
    and "DoubleQLearning_fit C uniform self dataset n_iterations = (e, self1)"
  shows "approximator self1 ! (1 - coin uniform) = approximator self ! (1 - coin uniform)
       \<and> learning_rate self1 ! (1 - coin uniform) = learning_rate self ! (1 - coin uniform)
       \<and> length (approximator self1) = 2 \<and> length (learning_rate self1) = 2
       \<and> gamma self1 = gamma self
       \<and> (e = None \<longrightarrow>
            (\<exists>q. approximator self1 ! coin uniform
                   = fit_approximator C (approximator self ! coin uniform)
                       (sample_state (dataset ! 0)) (sample_action (dataset ! 0)) q)
            \<and> learning_rate self1 ! coin uniform
                = snd (learning_rate_call C (learning_rate self ! coin uniform)
                         (sample_state (dataset ! 0)) (sample_action (dataset ! 0))))
       \<and> (e \<noteq> None \<longrightarrow> self1 = self)"
  using assms
  by (auto simp: DoubleQLearning_fit_def coin_def Let_def split: if_splits sum.splits prod.splits)

theorem DoubleQLearning_fit_frame_witness:
  "length (approximator (double_agent\<lparr>gamma := 1 / 2\<rparr>)) = 2
   \<and> length (learning_rate (double_agent\<lparr>gamma := 1 / 2\<rparr>)) = 2
   \<and> DoubleQLearning_fit table 0 (double_agent\<lparr>gamma := 1 / 2\<rparr>) [step False] 1
       = (None, \<lparr>approximator = [ones(([0], [0]) := 3 / 4), ones], learning_rate = [1, 0],
                 gamma = 1 / 2\<rparr>)
   \<and> [ones(([0], [0]) := 3 / 4), ones] ! (1 - coin 0) = ones
   \<and> [1, 0 :: nat] ! (1 - coin 0) = 0
   \<and> [1, 0 :: nat] ! coin 0 = snd (learning_rate_call table (0 :: nat) [0] [0])"
proof -
  have f: "DoubleQLearning_fit table 0 (double_agent\<lparr>gamma := 1 / 2\<rparr>) [step False] 1
       = (None, \<lparr>approximator = [ones(([0], [0]) := 3 / 4), ones], learning_rate = [1, 0],
                 gamma = 1 / 2\<rparr>)"
    by (simp add: DoubleQLearning_fit_table)
  have l: "length (approximator (double_agent\<lparr>gamma := 1 / 2\<rparr>)) = 2"
    "length (learning_rate (double_agent\<lparr>gamma := 1 / 2\<rparr>)) = 2"
    by (simp_all add: double_agent_def)
  from DoubleQLearning_fit_frame [OF l f] l f show ?thesis
    by (simp add: double_agent_def step_simps table_simps coin_def)
qed

text \<open>
  C5, as amended. For \<^verbatim>\<open>WeightedQLearning\<close> with sampling enabled and a precision of
  at least 1, for every outcome of the draws: when the action set is not empty and the
  next state lies inside the table, \<^verbatim>\<open>_next_q\<close> returns, its weights (the tallies
  divided by the precision) are not negative and sum to 1, and the value it returns, the
  weighted mean of the means, lies between the smallest and the largest mean.
\<close>

theorem weighted_estimator_is_a_mean:
  assumes "sampling self" and "0 < precision self" and "discrete_actions C \<noteq> []"
    and "list_all (\<lambda>a. \<not> isl (np_index (shape C) (sa_index next_state [real a])))
           [0..<length (discrete_actions C)]"
  shows "\<exists>w. WeightedQLearning_weights (precision self) normal (length (discrete_actions C)) = Inr w
           \<and> length w = length (discrete_actions C)
           \<and> list_all (\<lambda>x. 0 \<le> x) w \<and> sum_list w = 1
           \<and> WeightedQLearning_next_q C normal self next_state
               = Inr (sum_list (map2 (*) w (predict_all C (approximator self) next_state)))
           \<and> Min (set (predict_all C (approximator self) next_state))
               \<le> sum_list (map2 (*) w (predict_all C (approximator self) next_state))
           \<and> sum_list (map2 (*) w (predict_all C (approximator self) next_state))
               \<le> Max (set (predict_all C (approximator self) next_state))"
proof -
  let ?means = "predict_all C (approximator self) next_state"
  have len: "length ?means = length (discrete_actions C)" by (simp add: predict_all_def)
  have ne: "set ?means \<noteq> {}" using assms(3) len by auto
  from assms(3) have n: "0 < length (discrete_actions C)" by simp
  from WeightedQLearning_weights_normalised [OF assms(2) n, of normal] obtain w where
    w: "WeightedQLearning_weights (precision self) normal (length (discrete_actions C)) = Inr w"
      "length w = length (discrete_actions C)" "list_all (\<lambda>x. 0 \<le> x) w" "sum_list w = 1"
    by blast
  have keys: "\<not> list_ex isl (map (\<lambda>a. np_index (shape C) (sa_index next_state [real a]))
                 [0..<length (discrete_actions C)])"
    using assms(4) by (simp add: list_ex_iff list_all_iff)
  have nq: "WeightedQLearning_next_q C normal self next_state = Inr (sum_list (map2 (*) w ?means))"
    unfolding WeightedQLearning_next_q_def Let_def using keys assms(1) w(1) len by simp
  have lw: "length w = length ?means" using w(2) len by simp
  have "sum_list (map2 (*) w ?means) \<le> sum_list w * Max (set ?means)"
    by (rule weighted_mean_le [OF lw w(3)]) simp
  moreover have "sum_list w * Min (set ?means) \<le> sum_list (map2 (*) w ?means)"
    by (rule weighted_mean_ge [OF lw w(3)]) simp
  ultimately show ?thesis using w nq by auto
qed

theorem weighted_estimator_is_a_mean_witness:
  "sampling (WeightedQLearning_init low_high 0 (1 / 2) True 2)
   \<and> 0 < precision (WeightedQLearning_init low_high 0 (1 / 2) True 2)
   \<and> discrete_actions table \<noteq> []
   \<and> list_all (\<lambda>a. \<not> isl (np_index (shape table) (sa_index [0] [real a])))
         [0..<length (discrete_actions table)]
   \<and> predict_all table low_high [0] = [1, 2]
   \<and> WeightedQLearning_weights 2 split_votes (length (discrete_actions table))
       = Inr [1 / 2, 1 / 2]
   \<and> WeightedQLearning_next_q table split_votes
        (WeightedQLearning_init low_high 0 (1 / 2) True 2) [0] = Inr (3 / 2)
   \<and> Min (set (predict_all table low_high [0])) \<le> 3 / 2
   \<and> 3 / 2 \<le> Max (set (predict_all table low_high [0]))"
proof -
  have h: "sampling (WeightedQLearning_init low_high 0 (1 / 2) True 2)"
    "0 < precision (WeightedQLearning_init low_high 0 (1 / 2) True 2)"
    "discrete_actions table \<noteq> []"
    by (simp_all add: WeightedQLearning_init_def table_simps)
  have k: "list_all (\<lambda>a. \<not> isl (np_index (shape table) (sa_index [0] [real a])))
         [0..<length (discrete_actions table)]"
    using table_keys by (simp add: table_simps(3) upt2 flip: numeral_2_eq_2)
  have p: "precision (WeightedQLearning_init low_high 0 (1 / 2) True 2) = 2"
    "approximator (WeightedQLearning_init low_high 0 (1 / 2) True 2) = low_high"
    by (simp_all add: WeightedQLearning_init_def)
  have m: "predict_all table low_high [0] = [1, 2]"
    by (simp add: predict_all_def table_simps low_high_def)
  from weighted_estimator_is_a_mean [OF h k, of split_votes] h k m
  show ?thesis
    unfolding p by (auto simp: weights_split_votes next_q_split_votes)
qed

text \<open>
  The claim without the bound on the precision fails: with precision 0 there is no draw,
  every tally is 0 and the weights are zero divided by zero.
\<close>

theorem weights_precision_zero:
  "WeightedQLearning_weights 0 first_wins (length (discrete_actions table)) = Inl NotANumber
   \<and> WeightedQLearning_next_q table first_wins (WeightedQLearning_init ones 0 (1 / 2) True 0) [0]
       = Inl NotANumber"
proof -
  have k: "map (\<lambda>a. np_index (shape table) (sa_index [0] [real a]))
             [0..<length (discrete_actions table)] = [Inr [0, 0], Inr [0, 1]]"
    using table_keys by (simp add: table_simps(3) upt2 flip: numeral_2_eq_2)
  have l: "length (predict_all table ones [0]) = length (discrete_actions table)"
    by (simp add: predict_all_def)
  have w: "WeightedQLearning_weights 0 first_wins (length (discrete_actions table)) = Inl NotANumber"
    by (simp add: WeightedQLearning_weights_def table_simps(3))
  show ?thesis
    unfolding WeightedQLearning_next_q_def Let_def k
    by (simp add: WeightedQLearning_init_def l w)
qed



text \<open>
  C7. For every variant, \<^verbatim>\<open>fit\<close> with a dataset whose length is not 1, or with
  \<^verbatim>\<open>n_iterations\<close> other than 1, fails with an assertion failure and leaves the agent
  (approximators, schedules, statistics, shadow) as it was.
\<close>

theorem fit_rejects_batches:
  assumes "n_iterations \<noteq> 1 \<or> length dataset \<noteq> 1"
  shows "QLearning_fit C self_q dataset n_iterations = (Some AssertionError, self_q)
       \<and> SARSA_fit C draw_action self_s dataset n_iterations = (Some AssertionError, self_s)
       \<and> DoubleQLearning_fit C uniform self_d dataset n_iterations = (Some AssertionError, self_d)
       \<and> WeightedQLearning_fit C normal self_w dataset n_iterations = (Some AssertionError, self_w)
       \<and> SpeedyQLearning_fit C self_y dataset n_iterations = (Some AssertionError, self_y)"
  using assms
  by (auto simp: QLearning_fit_def SARSA_fit_def TD_fit_def DoubleQLearning_fit_def
      WeightedQLearning_fit_def SpeedyQLearning_fit_def)

theorem fit_rejects_batches_witness:
  "length [step False, step False] \<noteq> 1
   \<and> QLearning_fit table agent [step False, step False] 1 = (Some AssertionError, agent)
   \<and> SARSA_fit table (\<lambda>_. [1]) sarsa_agent [step False, step False] 1
        = (Some AssertionError, sarsa_agent)
   \<and> DoubleQLearning_fit table 0 double_agent [step False, step False] 1
        = (Some AssertionError, double_agent)
   \<and> WeightedQLearning_fit table first_wins (WeightedQLearning_init ones 0 (1 / 2) True 2)
        [step False, step False] 1
        = (Some AssertionError, WeightedQLearning_init ones 0 (1 / 2) True 2)
   \<and> SpeedyQLearning_fit table (SpeedyQLearning_init ones 0 (1 / 2)) [step False, step False] 1
        = (Some AssertionError, SpeedyQLearning_init ones 0 (1 / 2))"
  using fit_rejects_batches [of 1 "[step False, step False]" table agent "\<lambda>_. [1]" sarsa_agent
      0 double_agent first_wins "WeightedQLearning_init ones 0 (1 / 2) True 2"
      "SpeedyQLearning_init ones 0 (1 / 2)"]
  by simp

text \<open>
  C8. \<^verbatim>\<open>DoubleQLearning.__init__\<close> fails with an assertion failure when the ensemble
  does not have exactly two models. With two models it succeeds, and the agent holds two
  copies of the supplied schedule which evolve apart: after a \<^verbatim>\<open>fit\<close> the copy of the
  side that was not chosen is still the supplied schedule, the other one has been called.
\<close>

theorem DoubleQLearning_init_two_models:
  "(length models \<noteq> 2 \<longrightarrow> DoubleQLearning_init models lr g = Inl AssertionError)
   \<and> (length models = 2 \<longrightarrow>
        DoubleQLearning_init models lr g
          = Inr \<lparr>approximator = models, learning_rate = [lr, lr], gamma = g\<rparr>)
   \<and> (DoubleQLearning_init models lr g = Inr self \<longrightarrow>
        DoubleQLearning_fit C uniform self dataset n_iterations = (e, self1) \<longrightarrow>
          learning_rate self1 ! (1 - coin uniform) = lr
          \<and> (e = None \<longrightarrow>
                learning_rate self1 ! coin uniform
                  = snd (learning_rate_call C lr
                           (sample_state (dataset ! 0)) (sample_action (dataset ! 0)))))"
  by (auto simp: DoubleQLearning_init_def DoubleQLearning_fit_def coin_def Let_def
      split: if_splits sum.splits prod.splits)

theorem DoubleQLearning_init_two_models_witness:
  "length [ones] \<noteq> 2 \<and> DoubleQLearning_init [ones] (0 :: nat) (1 / 2) = Inl AssertionError
   \<and> length [ones, ones] = 2
   \<and> DoubleQLearning_init [ones, ones] (0 :: nat) (1 / 2) = Inr (double_agent\<lparr>gamma := 1 / 2\<rparr>)
   \<and> DoubleQLearning_fit table 0 (double_agent\<lparr>gamma := 1 / 2\<rparr>) [step False] 1
       = (None, \<lparr>approximator = [ones(([0], [0]) := 3 / 4), ones], learning_rate = [1, 0],
                 gamma = 1 / 2\<rparr>)
   \<and> [1, 0 :: nat] ! (1 - coin 0) = 0
   \<and> [1, 0 :: nat] ! coin 0 = snd (learning_rate_call table (0 :: nat) [0] [0])"
proof -
  have i: "DoubleQLearning_init [ones, ones] (0 :: nat) (1 / 2) = Inr (double_agent\<lparr>gamma := 1 / 2\<rparr>)"
    by (simp add: DoubleQLearning_init_def double_agent_def)
  have f: "DoubleQLearning_fit table 0 (double_agent\<lparr>gamma := 1 / 2\<rparr>) [step False] 1
       = (None, \<lparr>approximator = [ones(([0], [0]) := 3 / 4), ones], learning_rate = [1, 0],
                 gamma = 1 / 2\<rparr>)"
    by (simp add: DoubleQLearning_fit_table)
  from DoubleQLearning_init_two_models [of "[ones]" "0 :: nat" "1 / 2"]
    DoubleQLearning_init_two_models [of "[ones, ones]" "0 :: nat" "1 / 2"
      "double_agent\<lparr>gamma := 1 / 2\<rparr>" table 0 "[step False]" 1 None
      "\<lparr>approximator = [ones(([0], [0]) := 3 / 4), ones], learning_rate = [1, 0], gamma = 1 / 2\<rparr>"]
    i f
  show ?thesis by (simp add: step_simps)
qed



text \<open>
  C10. A \<^verbatim>\<open>fit\<close> call on a \<^verbatim>\<open>WeightedQLearning\<close> agent that raises the visitation
  count of a cell from 0 to 1 completes and leaves the standard deviation of that cell at
  its initial value \<open>1e10\<close>; it changes no entry of \<^verbatim>\<open>_sigma\<close> at all, since the
  recomputation runs only for a count greater than 1.
\<close>

theorem first_visit_keeps_sigma:
  assumes "WeightedQLearning_run C (WeightedQLearning_init q lr g smp prec) calls = Some self"
    and "WeightedQLearning_fit C normal self dataset n_iterations = (e, self1)"
    and "n_updates self c = 0" and "n_updates self1 c = 1"
  shows "sigma self1 c = 10 ^ 10 \<and> sigma self1 = sigma self \<and> e = None"
proof -
  have "WeightedQLearning_invariant self"
    using WeightedQLearning_run_invariant [OF WeightedQLearning_invariant_init,
        of C q lr g smp prec calls self] assms(1)
    by simp
  with assms(3) have s: "sigma self c = 10 ^ 10"
    by (simp add: WeightedQLearning_invariant_def)
  from WeightedQLearning_fit_cases [OF assms(2)]
  have "sigma self1 = sigma self \<and> e = None"
  proof (elim disjE conjE exE)
    assume "self1 = self"
    with assms(3,4) show ?thesis by simp
  next
    fix l a
    assume "self1 = self\<lparr>learning_rate := l, approximator := a\<rparr>"
    with assms(3,4) show ?thesis by simp
  next
    fix l a k target alpha
    assume st: "WeightedQLearning_statistics (self\<lparr>learning_rate := l, approximator := a\<rparr>)
                k target alpha = (e, self1)"
    from WeightedQLearning_statistics_count [OF st] assms(3,4) have "k = c"
      by (auto split: if_splits)
    with WeightedQLearning_statistics_first_visit [OF st] assms(3) show ?thesis by simp
  qed
  with s show ?thesis by simp
qed

theorem first_visit_keeps_sigma_witness:
  "WeightedQLearning_run table (WeightedQLearning_init ones 0 (1 / 2) True 2) []
     = Some (WeightedQLearning_init ones 0 (1 / 2) True 2)
   \<and> n_updates (WeightedQLearning_init ones 0 (1 / 2) True 2) [0, 0] = 0
   \<and> n_updates (snd (WeightedQLearning_fit table first_wins
        (WeightedQLearning_init ones 0 (1 / 2) True 2) [step True] 1)) [0, 0] = 1
   \<and> sigma (snd (WeightedQLearning_fit table first_wins
        (WeightedQLearning_init ones 0 (1 / 2) True 2) [step True] 1)) [0, 0] = 10 ^ 10"
proof -
  have r: "WeightedQLearning_run table (WeightedQLearning_init ones 0 (1 / 2) True 2) []
     = Some (WeightedQLearning_init ones 0 (1 / 2) True 2)" by simp
  have z: "n_updates (WeightedQLearning_init ones 0 (1 / 2) True 2) [0, 0] = 0"
    by (simp add: WeightedQLearning_init_def)
  have f: "WeightedQLearning_fit table first_wins (WeightedQLearning_init ones 0 (1 / 2) True 2)
          [step True] 1 = (None, snd (WeightedQLearning_fit table first_wins
             (WeightedQLearning_init ones 0 (1 / 2) True 2) [step True] 1))"
    by (simp add: WeightedQLearning_fit_first)
  have o: "n_updates (snd (WeightedQLearning_fit table first_wins
        (WeightedQLearning_init ones 0 (1 / 2) True 2) [step True] 1)) [0, 0] = 1"
    by (simp add: WeightedQLearning_fit_first)
  from first_visit_keeps_sigma [OF r f z o] r z o show ?thesis
    by (simp add: WeightedQLearning_init_def)
qed

section \<open>Further properties\<close>

text \<open>
  On a sample whose absorbing flag is set, a completed \<^verbatim>\<open>fit\<close> of \<^verbatim>\<open>QLearning\<close>,
  \<^verbatim>\<open>SARSA\<close>, \<^verbatim>\<open>DoubleQLearning\<close> and \<^verbatim>\<open>WeightedQLearning\<close> bootstraps with 0: it
  writes the update whose target is the reward.
\<close>

theorem absorbing_target_is_reward:
  assumes "sample_absorbing sample"
  shows "(QLearning_fit C self_q [sample] 1 = (None, self_q') \<longrightarrow>
            approximator self_q'
              = TD_update C (approximator self_q) (learning_rate self_q) sample
                  (sample_reward sample))
       \<and> (SARSA_fit C draw_action self_s [sample] 1 = (None, self_s') \<longrightarrow>
            approximator self_s'
              = TD_update C (approximator self_s) (learning_rate self_s) sample
                  (sample_reward sample))
       \<and> (length (approximator self_d) = 2 \<longrightarrow>
          DoubleQLearning_fit C uniform self_d [sample] 1 = (None, self_d') \<longrightarrow>
            approximator self_d' ! coin uniform
              = TD_update C (approximator self_d ! coin uniform)
                  (learning_rate self_d ! coin uniform) sample (sample_reward sample))
       \<and> (WeightedQLearning_fit C normal self_w [sample] 1 = (None, self_w') \<longrightarrow>
            approximator self_w'
              = TD_update C (approximator self_w) (learning_rate self_w) sample
                  (sample_reward sample))"
proof (intro conjI impI)
  assume "QLearning_fit C self_q [sample] 1 = (None, self_q')"
  from QLearning_fit_written [OF this] assms
  show "approximator self_q'
      = TD_update C (approximator self_q) (learning_rate self_q) sample (sample_reward sample)"
    by auto
next
  assume "SARSA_fit C draw_action self_s [sample] 1 = (None, self_s')"
  from SARSA_fit_written [OF this] assms
  show "approximator self_s'
      = TD_update C (approximator self_s) (learning_rate self_s) sample (sample_reward sample)"
    by auto
next
  assume "length (approximator self_d) = 2"
    "DoubleQLearning_fit C uniform self_d [sample] 1 = (None, self_d')"
  from DoubleQLearning_fit_written [OF this] assms
  show "approximator self_d' ! coin uniform
      = TD_update C (approximator self_d ! coin uniform) (learning_rate self_d ! coin uniform)
          sample (sample_reward sample)"
    by auto
next
  assume "WeightedQLearning_fit C normal self_w [sample] 1 = (None, self_w')"
  from WeightedQLearning_fit_written [OF this] assms
  show "approximator self_w'
      = TD_update C (approximator self_w) (learning_rate self_w) sample (sample_reward sample)"
    by auto
qed

theorem absorbing_target_is_reward_witness:
  "sample_absorbing (step True)
   \<and> fst (QLearning_fit table agent [step True] 1) = None
   \<and> approximator (snd (QLearning_fit table agent [step True] 1))
       = TD_update table ones 0 (step True) 0
   \<and> fst (SARSA_fit table (\<lambda>_. [1]) sarsa_agent [step True] 1) = None
   \<and> approximator (snd (SARSA_fit table (\<lambda>_. [1]) sarsa_agent [step True] 1))
       = TD_update table ones 0 (step True) 0
   \<and> fst (DoubleQLearning_fit table 0 double_agent [step True] 1) = None
   \<and> approximator (snd (DoubleQLearning_fit table 0 double_agent [step True] 1)) ! coin 0
       = TD_update table ones 0 (step True) 0
   \<and> fst (WeightedQLearning_fit table first_wins (WeightedQLearning_init ones 0 (1 / 2) True 2)
             [step True] 1) = None
   \<and> approximator (snd (WeightedQLearning_fit table first_wins
         (WeightedQLearning_init ones 0 (1 / 2) True 2) [step True] 1))
       = TD_update table ones 0 (step True) 0"
proof -
  have a: "sample_absorbing (step True)" by (simp add: step_simps)
  have q: "fst (QLearning_fit table agent [step True] 1) = None"
    by (simp add: QLearning_fit_def TD_fit_def step_simps table_simps Let_def)
  have s: "fst (SARSA_fit table (\<lambda>_. [1]) sarsa_agent [step True] 1) = None"
    by (simp add: SARSA_fit_def TD_fit_def step_simps table_simps Let_def)
  have d: "fst (DoubleQLearning_fit table 0 double_agent [step True] 1) = None"
    by (simp add: DoubleQLearning_fit_def step_simps table_simps Let_def)
  have w: "fst (WeightedQLearning_fit table first_wins
      (WeightedQLearning_init ones 0 (1 / 2) True 2) [step True] 1) = None"
    by (simp add: WeightedQLearning_fit_first)
  from absorbing_target_is_reward [OF a,
      where C = table and self_q = agent
        and self_q' = "snd (QLearning_fit table agent [step True] 1)"
        and self_s = sarsa_agent and draw_action = "\<lambda>_. [1]"
        and self_s' = "snd (SARSA_fit table (\<lambda>_. [1]) sarsa_agent [step True] 1)"
        and self_d = double_agent and uniform = 0
        and self_d' = "snd (DoubleQLearning_fit table 0 double_agent [step True] 1)"
        and self_w = "WeightedQLearning_init ones 0 (1 / 2) True 2" and normal = first_wins
        and self_w' = "snd (WeightedQLearning_fit table first_wins
                              (WeightedQLearning_init ones 0 (1 / 2) True 2) [step True] 1)"]
    completed [OF q] completed [OF s] completed [OF d] completed [OF w] a q s d w
  show ?thesis
    by (simp add: agent_def sarsa_agent_def double_agent_def WeightedQLearning_init_def
        step_simps coin_def)
qed

text \<open>
  With sampling disabled, \<^verbatim>\<open>WeightedQLearning.fit\<close> on a sample that is not absorbing,
  whose next state lies inside the table, raises \<^verbatim>\<open>NotImplementedError\<close> and changes
  nothing.
\<close>

theorem sampling_disabled_not_implemented:
  assumes "\<not> sampling self" and "\<not> sample_absorbing sample"
    and "list_all (\<lambda>a. \<not> isl (np_index (shape C) (sa_index (sample_next_state sample) [real a])))
           [0..<length (discrete_actions C)]"
  shows "WeightedQLearning_fit C normal self [sample] 1 = (Some NotImplementedError, self)"
proof -
  have "\<not> list_ex isl (map (\<lambda>a. np_index (shape C) (sa_index (sample_next_state sample) [real a]))
                 [0..<length (discrete_actions C)])"
    using assms(3) by (simp add: list_ex_iff list_all_iff)
  then have "WeightedQLearning_next_q C normal self (sample_next_state sample)
      = Inl NotImplementedError"
    using assms(1) by (simp add: WeightedQLearning_next_q_def Let_def)
  then show ?thesis
    using assms(2) by (simp add: WeightedQLearning_fit_single)
qed

theorem sampling_disabled_not_implemented_witness:
  "\<not> sampling (WeightedQLearning_init ones 0 (1 / 2) False 2)
   \<and> \<not> sample_absorbing (step False)
   \<and> list_all (\<lambda>a. \<not> isl (np_index (shape table)
                              (sa_index (sample_next_state (step False)) [real a])))
         [0..<length (discrete_actions table)]
   \<and> WeightedQLearning_fit table first_wins (WeightedQLearning_init ones 0 (1 / 2) False 2)
        [step False] 1
       = (Some NotImplementedError, WeightedQLearning_init ones 0 (1 / 2) False 2)"
proof -
  have h: "\<not> sampling (WeightedQLearning_init ones 0 (1 / 2) False 2)"
    "\<not> sample_absorbing (step False)"
    by (simp_all add: WeightedQLearning_init_def step_simps)
  have k: "list_all (\<lambda>a. \<not> isl (np_index (shape table)
                              (sa_index (sample_next_state (step False)) [real a])))
         [0..<length (discrete_actions table)]"
    using table_keys by (simp add: table_simps(3) step_simps upt2 flip: numeral_2_eq_2)
  from sampling_disabled_not_implemented [OF h k, of first_wins] h k show ?thesis by simp
qed

text \<open>
  \<^verbatim>\<open>SARSA.fit\<close> on a sample that is not absorbing completes, records the action the
  policy drew for the next state, and bootstraps with the prediction at that action.
\<close>

theorem SARSA_records_next_action:
  assumes "\<not> sample_absorbing sample"
  shows "\<exists>self1. SARSA_fit C draw_action self [sample] 1 = (None, self1)
           \<and> next_action self1 = Some (draw_action (sample_next_state sample))
           \<and> approximator self1
               = TD_update C (approximator self) (learning_rate self) sample
                   (sample_reward sample
                      + gamma self * predict C (approximator self) (sample_next_state sample)
                                       (draw_action (sample_next_state sample)))"
  using assms
  by (simp add: SARSA_fit_def TD_fit_def SARSA_next_q_def TD_update_def Let_def
      split: prod.splits)

theorem SARSA_records_next_action_witness:
  "\<not> sample_absorbing (step False)
   \<and> SARSA_fit table (\<lambda>_. [1]) sarsa_agent [step False] 1
       = (None, \<lparr>approximator = ones(([0], [0]) := 3 / 4), learning_rate = 1,
                 gamma = 1 / 2, next_action = Some [1]\<rparr>)
   \<and> ones(([0], [0]) := 3 / 4)
       = TD_update table ones 0 (step False) (0 + 1 / 2 * predict table ones [0] [1])"
proof -
  have a: "\<not> sample_absorbing (step False)" by (simp add: step_simps)
  have f: "SARSA_fit table (\<lambda>_. [1]) sarsa_agent [step False] 1
       = (None, \<lparr>approximator = ones(([0], [0]) := 3 / 4), learning_rate = 1,
                 gamma = 1 / 2, next_action = Some [1]\<rparr>)"
    using SARSA_fit_table [of "1 / 2"] by (simp add: sarsa_agent_def)
  from SARSA_records_next_action [OF a, of table "\<lambda>_. [1]" sarsa_agent] a f
  show ?thesis
    by (simp add: step_simps sarsa_agent_def)
qed

end
